theory Spec2Isabelle
  imports Complex_Main
begin

section \<open>Time\<close>

text \<open>
  A JavaScript \<open>Date\<close> is its time value: milliseconds, here counted on the local
  wall clock (the host's time zone is a fixed offset folded into the epoch, so
  there are no daylight-saving jumps). \<open>toISOString\<close> and \<open>new Date(string)\<close>
  are inverse renderings of the time value and are the identity here.
\<close>

type_synonym js_date = int

definition msPerMinute :: int where "msPerMinute = 60000"
definition msPerHour :: int where "msPerHour = 3600000"
definition msPerDay :: int where "msPerDay = 86400000"

text \<open>
  \<open>toDateString\<close> prints the local calendar day (weekday, month, day, year) and
  nothing else; the printed day is represented by its day number.
\<close>

type_synonym date_string = int

definition toDateString :: "js_date \<Rightarrow> date_string" where
  "toDateString t = t div msPerDay"

definition getHours :: "js_date \<Rightarrow> int" where
  "getHours t = (t mod msPerDay) div msPerHour"

definition getMinutes :: "js_date \<Rightarrow> int" where
  "getMinutes t = (t mod msPerHour) div msPerMinute"

text \<open>
  \<open>d.setDate(d.getDate() + n)\<close>: the same time of day, \<open>n\<close> calendar days later
  (earlier for a negative \<open>n\<close>).
\<close>

definition addDays :: "int \<Rightarrow> js_date \<Rightarrow> js_date" where
  "addDays n t = t + n * msPerDay"

section \<open>Data model\<close>

text \<open>
  Row identifiers (uuid strings in the source) are natural numbers; decimal columns
  and the JavaScript numbers computed from them are exact rationals.
\<close>

type_synonym uuid = nat

record investment_plan =
  ip_id :: uuid
  ip_name :: string
  duration_days :: int
  daily_profit_percentage :: rat

text \<open>The object handed to \<open>insert\<close>, and the stored row, which adds the key.\<close>

record investment_fields =
  user_id :: uuid
  plan_id :: uuid
  amount :: rat
  start_date :: js_date
  end_date :: js_date
  is_active :: bool
  profit_earned :: rat

record user_investment = investment_fields +
  ui_id :: uuid

text \<open>A row selected with \<open>'*, investment_plans(*)'\<close>: the row and the joined plan,
  \<open>None\<close> for \<open>null\<close>.\<close>

type_synonym joined_investment = "user_investment \<times> investment_plan option"

datatype operation = Add | Remove

datatype error =
    RemoteError string  \<comment> \<open>the error object of a failed request\<close>
  | NotSingleRow        \<comment> \<open>\<open>.single()\<close> on a result that is not exactly one row\<close>
  | TypeError           \<comment> \<open>reading a property of \<open>null\<close>\<close>

datatype request =
    SelectPlan uuid
  | InsertInvestment investment_fields
  | SelectInvestment uuid
  | SelectActiveInvestments js_date
  | UpdateIsActive uuid bool
  | UpdateProfitEarned uuid rat
  | UpdateUserBalance uuid rat operation
  | SendUserNotification uuid string "rat \<times> string" string

datatype toast_message =
    PlanActivated string   \<comment> \<open>"Plan Activated Successfully!", naming the plan\<close>
  | ActivationFailed       \<comment> \<open>"Activation Failed", variant destructive\<close>

datatype console_line =
    ErrorActivatingPlan error
  | ErrorGeneratingDailyProfit error
  | ErrorGeneratingProfits error
  | LogExpired uuid
  | LogCredited rat uuid
  | LogProcessing nat

datatype event =
    NewDate js_date
  | Request request
  | Toast toast_message
  | Console console_line

text \<open>
  The world the hook runs in. \<open>plans\<close>, \<open>investments\<close> and \<open>balances\<close> are the
  backend's tables; \<open>faults\<close> scripts the outcome of the coming requests (the head
  decides the next one: \<open>Some e\<close> makes it fail with \<open>e\<close> before it reaches the
  tables, \<open>None\<close> or an exhausted script lets it through); \<open>now\<close> and \<open>pending\<close>
  are the clock (the coming readings of \<open>new Date()\<close>, the last one repeating);
  \<open>lastProfitCheckRef\<close> is the hook's ref; \<open>trace\<close> lists every effect in the
  order it happened.
\<close>

record world =
  plans :: "investment_plan list"
  investments :: "user_investment list"
  balances :: "uuid \<Rightarrow> rat"
  faults :: "error option list"
  now :: js_date
  pending :: "js_date list"
  lastProfitCheckRef :: "date_string option"
  trace :: "event list"

section \<open>The environment: clock, toasts, console, requests\<close>

definition emit :: "event \<Rightarrow> world \<Rightarrow> world" where
  "emit e w = w\<lparr>trace := trace w @ [e]\<rparr>"

text \<open>\<open>new Date()\<close>: the next reading of the clock.\<close>

definition newDate :: "world \<Rightarrow> js_date \<times> world" where
  "newDate w =
     (case pending w of
        [] \<Rightarrow> (now w, emit (NewDate (now w)) w)
      | t # ts \<Rightarrow> (t, emit (NewDate t) (w\<lparr>now := t, pending := ts\<rparr>)))"

text \<open>The \<open>n\<close>-th coming reading of the clock.\<close>

fun reading :: "nat \<Rightarrow> world \<Rightarrow> js_date" where
  "reading 0 w = fst (newDate w)"
| "reading (Suc n) w = reading n (snd (newDate w))"

definition toast :: "toast_message \<Rightarrow> world \<Rightarrow> world" where
  "toast m w = emit (Toast m) w"

definition console :: "console_line \<Rightarrow> world \<Rightarrow> world" where
  "console l w = emit (Console l) w"

text \<open>The outcome the fault script holds for the \<open>n\<close>-th coming request.\<close>

definition fault :: "nat \<Rightarrow> world \<Rightarrow> error option" where
  "fault n w = (case drop n (faults w) of [] \<Rightarrow> None | f # _ \<Rightarrow> f)"

text \<open>
  Sending a request: it is recorded, and the head of the fault script is its outcome.
  An awaited request never rejects: as the client does by default, it resolves to a
  value whose \<open>error\<close> field tells a failure, and the caller sees a failure only
  where it reads that field. \<open>sent r w\<close> is the world once \<open>r\<close> has been sent.
\<close>

definition sent :: "request \<Rightarrow> world \<Rightarrow> world" where
  "sent r w = emit (Request r) (w\<lparr>faults := drop 1 (faults w)\<rparr>)"

definition send :: "request \<Rightarrow> world \<Rightarrow> error option \<times> world" where
  "send r w = (fault 0 w, sent r w)"

section \<open>The gate\<close>

definition shouldGenerateProfit :: "world \<Rightarrow> bool \<times> world" where
  "shouldGenerateProfit w =
     (let (now, w1) = newDate w;
          today = toDateString now
      in if lastProfitCheckRef w1 = Some today then (False, w1)
         else
           let hours = getHours now;
               minutes = getMinutes now
           in if hours = 0 \<and> minutes < 5
              then (True, w1\<lparr>lastProfitCheckRef := Some today\<rparr>)
              else (False, w1))"

text \<open>\<open>n\<close> calls of the gate, one after the other, with their results in order.\<close>

fun gateCalls :: "nat \<Rightarrow> world \<Rightarrow> bool list \<times> world" where
  "gateCalls 0 w = ([], w)"
| "gateCalls (Suc n) w =
     (let (r, w1) = shouldGenerateProfit w;
          (rs, w2) = gateCalls n w1
      in (r # rs, w2))"

text \<open>The local time of day lies in the first five minutes after midnight.\<close>

definition inWindow :: "js_date \<Rightarrow> bool" where
  "inWindow t = (getHours t = 0 \<and> getMinutes t < 5)"

section \<open>The backend's operations\<close>

text \<open>\<open>.eq('id', k).single()\<close>: exactly one matching row, or an error.\<close>

definition single :: "'a list \<Rightarrow> error + 'a" where
  "single rows = (case rows of [r] \<Rightarrow> Inr r | _ \<Rightarrow> Inl NotSingleRow)"

text \<open>The embedded \<open>investment_plans(*)\<close> of a row: the plan its \<open>plan_id\<close> names.\<close>

definition joinPlan :: "investment_plan list \<Rightarrow> user_investment \<Rightarrow> joined_investment" where
  "joinPlan ps r = (r, find (\<lambda>p. ip_id p = plan_id r) ps)"

definition selectPlan :: "uuid \<Rightarrow> world \<Rightarrow> (error + investment_plan) \<times> world" where
  "selectPlan planId w =
     (case send (SelectPlan planId) w of
        (Some e, w1) \<Rightarrow> (Inl e, w1)
      | (None, w1) \<Rightarrow> (single (filter (\<lambda>p. ip_id p = planId) (plans w1)), w1))"

text \<open>The backend gives a new row a key that no row of the table has.\<close>

definition freshId :: "user_investment list \<Rightarrow> uuid" where
  "freshId rows = Suc (fold max (map ui_id rows) 0)"

definition stored :: "uuid \<Rightarrow> investment_fields \<Rightarrow> user_investment" where
  "stored k f =
     \<lparr>user_id = user_id f, plan_id = plan_id f, amount = amount f,
      start_date = start_date f, end_date = end_date f, is_active = is_active f,
      profit_earned = profit_earned f, ui_id = k\<rparr>"

definition insertInvestment ::
  "investment_fields \<Rightarrow> world \<Rightarrow> (error + user_investment) \<times> world" where
  "insertInvestment f w =
     (case send (InsertInvestment f) w of
        (Some e, w1) \<Rightarrow> (Inl e, w1)
      | (None, w1) \<Rightarrow>
          (let r = stored (freshId (investments w1)) f
           in (Inr r, w1\<lparr>investments := investments w1 @ [r]\<rparr>)))"

definition selectInvestment :: "uuid \<Rightarrow> world \<Rightarrow> (error + joined_investment) \<times> world" where
  "selectInvestment investmentId w =
     (case send (SelectInvestment investmentId) w of
        (Some e, w1) \<Rightarrow> (Inl e, w1)
      | (None, w1) \<Rightarrow>
          (single (map (joinPlan (plans w1))
                     (filter (\<lambda>r. ui_id r = investmentId) (investments w1))), w1))"

text \<open>\<open>.eq('is_active', true).gte('end_date', t)\<close>\<close>

definition selectActiveInvestments ::
  "js_date \<Rightarrow> world \<Rightarrow> (error + joined_investment list) \<times> world" where
  "selectActiveInvestments t w =
     (case send (SelectActiveInvestments t) w of
        (Some e, w1) \<Rightarrow> (Inl e, w1)
      | (None, w1) \<Rightarrow>
          (Inr (map (joinPlan (plans w1))
                  (filter (\<lambda>r. is_active r \<and> t \<le> end_date r) (investments w1))), w1))"

text \<open>\<open>.update(...).eq('id', k)\<close>: every row with that key is changed.\<close>

definition updateWhere ::
  "uuid \<Rightarrow> (user_investment \<Rightarrow> user_investment) \<Rightarrow> user_investment list \<Rightarrow> user_investment list" where
  "updateWhere k f rows = map (\<lambda>r. if ui_id r = k then f r else r) rows"

definition updateIsActive :: "uuid \<Rightarrow> bool \<Rightarrow> world \<Rightarrow> error option \<times> world" where
  "updateIsActive k b w =
     (case send (UpdateIsActive k b) w of
        (Some e, w1) \<Rightarrow> (Some e, w1)
      | (None, w1) \<Rightarrow>
          (None, w1\<lparr>investments := updateWhere k (\<lambda>r. r\<lparr>is_active := b\<rparr>) (investments w1)\<rparr>))"

definition updateProfitEarned :: "uuid \<Rightarrow> rat \<Rightarrow> world \<Rightarrow> error option \<times> world" where
  "updateProfitEarned k v w =
     (case send (UpdateProfitEarned k v) w of
        (Some e, w1) \<Rightarrow> (Some e, w1)
      | (None, w1) \<Rightarrow>
          (None, w1\<lparr>investments := updateWhere k (\<lambda>r. r\<lparr>profit_earned := v\<rparr>) (investments w1)\<rparr>))"

text \<open>
  Modelled from the spec: the stored procedure \<open>update_user_balance\<close> is not among the
  sources; the spec gives it as \<open>update_user_balance(user_id, amount, operation)\<close>
  with \<open>operation\<close> one of add and remove, crediting or debiting the user's balance.
\<close>

definition applyBalance :: "uuid \<Rightarrow> rat \<Rightarrow> operation \<Rightarrow> (uuid \<Rightarrow> rat) \<Rightarrow> (uuid \<Rightarrow> rat)" where
  "applyBalance u a op b =
     (case op of Add \<Rightarrow> b(u := b u + a) | Remove \<Rightarrow> b(u := b u - a))"

definition update_user_balance ::
  "uuid \<Rightarrow> rat \<Rightarrow> operation \<Rightarrow> world \<Rightarrow> error option \<times> world" where
  "update_user_balance u a op w =
     (case send (UpdateUserBalance u a op) w of
        (Some e, w1) \<Rightarrow> (Some e, w1)
      | (None, w1) \<Rightarrow> (None, w1\<lparr>balances := applyBalance u a op (balances w1)\<rparr>))"

text \<open>
  \<open>send_user_notification\<close>: only the request is recorded. The message is kept as the
  two values the template puts into it, the amount and the plan's name.
\<close>

definition send_user_notification ::
  "uuid \<Rightarrow> string \<Rightarrow> rat \<times> string \<Rightarrow> string \<Rightarrow> world \<Rightarrow> error option \<times> world" where
  "send_user_notification u title message type w =
     send (SendUserNotification u title message type) w"

section \<open>activatePlan\<close>

text \<open>The object literal that \<open>activatePlan\<close> inserts.\<close>

definition newInvestment ::
  "uuid \<Rightarrow> uuid \<Rightarrow> rat \<Rightarrow> js_date \<Rightarrow> js_date \<Rightarrow> investment_fields" where
  "newInvestment userId planId amt startDate endDate =
     \<lparr>user_id = userId, plan_id = planId, amount = amt,
      start_date = startDate, end_date = endDate,
      is_active = True, profit_earned = 0\<rparr>"

text \<open>The body of the \<open>try\<close>: \<open>Inl\<close> is a \<open>throw\<close>.\<close>

definition activatePlan_try ::
  "uuid \<Rightarrow> rat \<Rightarrow> uuid \<Rightarrow> world \<Rightarrow> (error + user_investment) \<times> world" where
  "activatePlan_try planId amt userId w =
     (case selectPlan planId w of
        (Inl planError, w1) \<Rightarrow> (Inl planError, w1)
      | (Inr plan, w1) \<Rightarrow>
          (let (startDate, w2) = newDate w1;
               (endDate0, w3) = newDate w2;
               endDate = addDays (duration_days plan) endDate0
           in case insertInvestment
                     (newInvestment userId planId amt startDate endDate) w3 of
                (Inl investmentError, w4) \<Rightarrow> (Inl investmentError, w4)
              | (Inr investment, w4) \<Rightarrow>
                  (case update_user_balance userId amt Remove w4 of
                     (Some balanceError, w5) \<Rightarrow> (Inl balanceError, w5)
                   | (None, w5) \<Rightarrow>
                       (Inr investment, toast (PlanActivated (ip_name plan)) w5))))"

definition activatePlan ::
  "uuid \<Rightarrow> rat \<Rightarrow> uuid \<Rightarrow> world \<Rightarrow> (error + user_investment) \<times> world" where
  "activatePlan planId amt userId w =
     (case activatePlan_try planId amt userId w of
        (Inr investment, w1) \<Rightarrow> (Inr investment, w1)
      | (Inl error, w1) \<Rightarrow>
          (Inl error, toast ActivationFailed (console (ErrorActivatingPlan error) w1)))"

section \<open>generateDailyProfit\<close>

text \<open>The body of the \<open>try\<close>: \<open>Some e\<close> is a \<open>throw\<close>, \<open>None\<close> a normal end.\<close>

definition generateDailyProfit_try ::
  "uuid \<Rightarrow> rat \<Rightarrow> rat \<Rightarrow> world \<Rightarrow> error option \<times> world" where
  "generateDailyProfit_try investmentId amt dailyProfitPercentage w =
     (let dailyProfit = (amt * dailyProfitPercentage) / 100
      in case selectInvestment investmentId w of
           (Inl investmentError, w1) \<Rightarrow> (Some investmentError, w1)
         | (Inr (investment, joined), w1) \<Rightarrow>
             (let (now, w2) = newDate w1;
                  endDate = end_date investment
              in if now > endDate
                 then (let (_, w3) = updateIsActive investmentId False w2
                       in (None, console (LogExpired investmentId) w3))
                 else
                   (case updateProfitEarned investmentId
                           (profit_earned investment + dailyProfit) w2 of
                      (Some updateError, w3) \<Rightarrow> (Some updateError, w3)
                    | (None, w3) \<Rightarrow>
                        (case update_user_balance (user_id investment) dailyProfit Add w3 of
                           (Some balanceError, w4) \<Rightarrow> (Some balanceError, w4)
                         | (None, w4) \<Rightarrow>
                             (case joined of
                                None \<Rightarrow> (Some TypeError, w4)
                              | Some plan \<Rightarrow>
                                  (let (_, w5) =
                                         send_user_notification (user_id investment)
                                           ''Daily Profit Credited''
                                           (dailyProfit, ip_name plan) ''success'' w4
                                   in (None, console (LogCredited dailyProfit investmentId) w5)))))))"

definition generateDailyProfit :: "uuid \<Rightarrow> rat \<Rightarrow> rat \<Rightarrow> world \<Rightarrow> world" where
  "generateDailyProfit investmentId amt dailyProfitPercentage w =
     (case generateDailyProfit_try investmentId amt dailyProfitPercentage w of
        (None, w1) \<Rightarrow> w1
      | (Some error, w1) \<Rightarrow> console (ErrorGeneratingDailyProfit error) w1)"

section \<open>The accrual cycle\<close>

text \<open>The \<open>for\<close> loop over the fetched rows; reading the plan of a row whose join is
  \<open>null\<close> throws out of the loop.\<close>

fun processInvestments :: "joined_investment list \<Rightarrow> world \<Rightarrow> error option \<times> world" where
  "processInvestments [] w = (None, w)"
| "processInvestments ((investment, joined) # rest) w =
     (case joined of
        None \<Rightarrow> (Some TypeError, w)
      | Some plan \<Rightarrow>
          processInvestments rest
            (generateDailyProfit (ui_id investment) (amount investment)
               (daily_profit_percentage plan) w))"

text \<open>The body of the \<open>try\<close> of the cycle.\<close>

definition generateProfits_try :: "world \<Rightarrow> error option \<times> world" where
  "generateProfits_try w =
     (let (t, w1) = newDate w
      in case selectActiveInvestments t w1 of
           (Inl error, w2) \<Rightarrow> (Some error, w2)
         | (Inr fetched, w2) \<Rightarrow>
             processInvestments fetched (console (LogProcessing (length fetched)) w2))"

definition generateProfitsForActiveInvestments :: "world \<Rightarrow> world" where
  "generateProfitsForActiveInvestments w =
     (case shouldGenerateProfit w of
        (False, w1) \<Rightarrow> w1
      | (True, w1) \<Rightarrow>
          (case generateProfits_try w1 of
             (None, w2) \<Rightarrow> w2
           | (Some error, w2) \<Rightarrow> console (ErrorGeneratingProfits error) w2))"

text \<open>The rows whose processing began, read off a trace: \<open>generateDailyProfit\<close>
  starts by selecting its row.\<close>

fun processed :: "event list \<Rightarrow> uuid list" where
  "processed [] = []"
| "processed (Request (SelectInvestment k) # evs) = k # processed evs"
| "processed (_ # evs) = processed evs"

section \<open>The verification widget\<close>

record recaptcha_row =
  site_key :: string
  is_enabled :: bool

text \<open>What the query function returns; \<open>{ enabled: false }\<close> has no \<open>siteKey\<close>.\<close>

record recaptcha_settings =
  enabled :: bool
  siteKey :: "string option"

text \<open>The query function, applied to the \<open>{ data, error }\<close> the request resolved to.\<close>

definition queryFn :: "recaptcha_row option \<Rightarrow> error option \<Rightarrow> recaptcha_settings" where
  "queryFn data error =
     (if error \<noteq> None \<or> \<not> (case data of None \<Rightarrow> False | Some d \<Rightarrow> is_enabled d)
      then \<lparr>enabled = False, siteKey = None\<rparr>
      else (case data of
              Some d \<Rightarrow> \<lparr>enabled = is_enabled d, siteKey = Some (site_key d)\<rparr>
            | None \<Rightarrow> \<lparr>enabled = False, siteKey = None\<rparr>))"

text \<open>\<open>recaptchaSettings?.enabled\<close> and \<open>recaptchaSettings?.siteKey\<close> as conditions;
  the settings are \<open>None\<close> while the query has not resolved.\<close>

definition enabledOf :: "recaptcha_settings option \<Rightarrow> bool" where
  "enabledOf s = (case s of None \<Rightarrow> False | Some x \<Rightarrow> enabled x)"

definition siteKeyOf :: "recaptcha_settings option \<Rightarrow> bool" where
  "siteKeyOf s =
     (case s of
        None \<Rightarrow> False
      | Some x \<Rightarrow> (case siteKey x of None \<Rightarrow> False | Some k \<Rightarrow> k \<noteq> []))"

datatype element = Div string string "element list"  \<comment> \<open>class, id, children\<close>

datatype widget_action =
    SetIsLoaded
  | AppendScript string
  | Render string "string option"  \<comment> \<open>container, sitekey\<close>

text \<open>The first effect: load the script once the settings ask for the widget.\<close>

definition loadEffect :: "recaptcha_settings option \<Rightarrow> bool \<Rightarrow> widget_action list" where
  "loadEffect recaptchaSettings grecaptcha =
     (if \<not> enabledOf recaptchaSettings \<or> \<not> siteKeyOf recaptchaSettings then []
      else if grecaptcha then [SetIsLoaded]
      else [AppendScript ''https://www.google.com/recaptcha/api.js''])"

text \<open>The second effect: render the widget into the container.\<close>

definition renderEffect ::
  "bool \<Rightarrow> recaptcha_settings option \<Rightarrow> bool \<Rightarrow> widget_action list" where
  "renderEffect isLoaded recaptchaSettings grecaptcha =
     (if isLoaded \<and> enabledOf recaptchaSettings \<and> siteKeyOf recaptchaSettings \<and> grecaptcha
      then [Render ''recaptcha-container''
              (case recaptchaSettings of None \<Rightarrow> None | Some x \<Rightarrow> siteKey x)]
      else [])"

text \<open>What the component returns: \<open>None\<close> is \<open>null\<close>.\<close>

definition RecaptchaWrapper :: "recaptcha_settings option \<Rightarrow> element option" where
  "RecaptchaWrapper recaptchaSettings =
     (if \<not> enabledOf recaptchaSettings then None
      else Some (Div ''flex justify-center my-4'' []
                   [Div [] ''recaptcha-container'' []]))"

section \<open>Example worlds\<close>

text \<open>Midnight at the start of some day, a plan, a running investment in it, and a
  world holding them, with a reliable backend and an idle clock.\<close>

definition midnight :: js_date where
  "midnight = 20000 * msPerDay"

definition starter :: investment_plan where
  "starter = \<lparr>ip_id = 1, ip_name = ''Starter'', duration_days = 30,
              daily_profit_percentage = 2\<rparr>"

definition stake :: user_investment where
  "stake = \<lparr>user_id = 7, plan_id = 1, amount = 1000,
            start_date = midnight - 10 * msPerDay, end_date = midnight + 20 * msPerDay,
            is_active = True, profit_earned = 180, ui_id = 3\<rparr>"

definition world0 :: world where
  "world0 = \<lparr>plans = [starter], investments = [stake], balances = (\<lambda>_. 0)(7 := 5000),
             faults = [], now = midnight, pending = [], lastProfitCheckRef = None,
             trace = []\<rparr>"

section \<open>Frame lemmas for the environment\<close>

lemma fault_emit [simp]: "fault n (emit e w) = fault n w"
  by (simp add: fault_def emit_def)

lemma fault_sent [simp]: "fault n (sent r w) = fault (Suc n) w"
  by (simp add: fault_def sent_def emit_def)

lemma fault_frame [simp]:
  "fault n (w\<lparr>investments := i\<rparr>) = fault n w"
  "fault n (w\<lparr>balances := b\<rparr>) = fault n w"
  "fault n (w\<lparr>lastProfitCheckRef := l\<rparr>) = fault n w"
  by (simp_all add: fault_def)

lemma fault_newDate [simp]: "fault n (snd (newDate w)) = fault n w"
  by (cases "pending w") (simp_all add: newDate_def fault_def emit_def)

lemma newDate_fields [simp]:
  "plans (snd (newDate w)) = plans w"
  "investments (snd (newDate w)) = investments w"
  "balances (snd (newDate w)) = balances w"
  "lastProfitCheckRef (snd (newDate w)) = lastProfitCheckRef w"
  "trace (snd (newDate w)) = trace w @ [NewDate (fst (newDate w))]"
  by (simp_all add: newDate_def emit_def split: list.splits)

lemma sent_fields [simp]:
  "plans (sent r w) = plans w"
  "investments (sent r w) = investments w"
  "balances (sent r w) = balances w"
  "lastProfitCheckRef (sent r w) = lastProfitCheckRef w"
  "trace (sent r w) = trace w @ [Request r]"
  by (simp_all add: sent_def emit_def)

lemma emit_fields [simp]:
  "plans (emit e w) = plans w"
  "investments (emit e w) = investments w"
  "balances (emit e w) = balances w"
  "lastProfitCheckRef (emit e w) = lastProfitCheckRef w"
  "trace (emit e w) = trace w @ [e]"
  by (simp_all add: emit_def)

lemma reading_0: "fst (newDate w) = reading 0 w"
  by simp

lemma reading_newDate: "reading n (snd (newDate w)) = reading (Suc n) w"
  by simp

declare reading.simps [simp del]

lemma newDate_clock_only:
  assumes "pending w' = pending w" and "now w' = now w"
  shows "fst (newDate w') = fst (newDate w)"
    and "pending (snd (newDate w')) = pending (snd (newDate w))"
    and "now (snd (newDate w')) = now (snd (newDate w))"
  using assms by (simp_all add: newDate_def emit_def split: list.splits)

lemma reading_clock_only:
  assumes "pending w' = pending w" and "now w' = now w"
  shows "reading n w' = reading n w"
  using assms
proof (induction n arbitrary: w w')
  case 0
  then show ?case
    using newDate_clock_only(1)[of w' w] by (simp add: reading.simps)
next
  case (Suc n)
  have "reading n (snd (newDate w')) = reading n (snd (newDate w))"
    using newDate_clock_only(2,3)[OF Suc.prems] by (rule Suc.IH)
  then show ?case by (simp add: reading.simps)
qed

lemma reading_frame [simp]:
  "reading n (sent r w) = reading n w"
  "reading n (emit e w) = reading n w"
  "reading n (w\<lparr>investments := i\<rparr>) = reading n w"
  "reading n (w\<lparr>balances := b\<rparr>) = reading n w"
  "reading n (w\<lparr>lastProfitCheckRef := l\<rparr>) = reading n w"
  by (rule reading_clock_only; simp add: sent_def emit_def)+

lemma filter_updateWhere:
  assumes "\<And>r. ui_id (f r) = ui_id r"
  shows "filter (\<lambda>r. ui_id r = k) (updateWhere k f rows) = map f (filter (\<lambda>r. ui_id r = k) rows)"
  by (induction rows) (simp_all add: updateWhere_def assms)

lemmas ops = selectInvestment_def updateIsActive_def updateProfitEarned_def
  update_user_balance_def send_user_notification_def send_def console_def toast_def
  single_def joinPlan_def Let_def split_def reading_0 reading_newDate


lemmas world0_eval = world0_def stake_def starter_def midnight_def msPerDay_def
  fault_def reading.simps newDate_def emit_def

section \<open>The gate: once per calendar day\<close>

lemma inWindow_time_of_day: "inWindow t \<longleftrightarrow> t mod msPerDay < 5 * msPerMinute"
proof -
  have m: "t mod msPerHour = (t mod msPerDay) mod msPerHour"
    by (simp add: msPerHour_def msPerDay_def mod_mod_cancel)
  have nn: "0 \<le> t mod msPerDay"
    by (simp add: msPerDay_def)
  show ?thesis
    unfolding inWindow_def getHours_def getMinutes_def m
    using nn by (auto simp: msPerHour_def msPerMinute_def)
qed

lemma shouldGenerateProfit_step:
  assumes "pending w = t # ts"
  shows "fst (shouldGenerateProfit w)
           = (lastProfitCheckRef w \<noteq> Some (toDateString t) \<and> inWindow t)"
    and "lastProfitCheckRef (snd (shouldGenerateProfit w))
           = (if fst (shouldGenerateProfit w) then Some (toDateString t)
              else lastProfitCheckRef w)"
    and "pending (snd (shouldGenerateProfit w)) = ts"
  using assms
  by (auto simp: shouldGenerateProfit_def newDate_def emit_def inWindow_def Let_def)

lemma gateCalls_length: "length (fst (gateCalls n w)) = n"
  by (induction n arbitrary: w) (simp_all add: Let_def split_def)

lemma gateCalls_Cons:
  assumes "pending w = t # ts"
  shows "fst (gateCalls (Suc (length ts)) w)
           = fst (shouldGenerateProfit w) # fst (gateCalls (length ts) (snd (shouldGenerateProfit w)))"
  by (simp add: Let_def split_def)

lemma gateCalls_marked:
  assumes "pending w = ts" and "\<forall>t\<in>set ts. toDateString t = d"
    and "lastProfitCheckRef w = Some d"
  shows "fst (gateCalls (length ts) w) = replicate (length ts) False"
  using assms
proof (induction ts arbitrary: w)
  case Nil
  then show ?case by simp
next
  case (Cons t ts)
  let ?w1 = "snd (shouldGenerateProfit w)"
  have r: "\<not> fst (shouldGenerateProfit w)"
    using Cons.prems shouldGenerateProfit_step(1)[of w t ts] by simp
  have m: "lastProfitCheckRef ?w1 = Some d"
    using Cons.prems r shouldGenerateProfit_step(2)[of w t ts] by simp
  have p: "pending ?w1 = ts"
    using Cons.prems shouldGenerateProfit_step(3)[of w t ts] by simp
  have "fst (gateCalls (length ts) ?w1) = replicate (length ts) False"
    using Cons.IH[OF p _ m] Cons.prems(2) by simp
  then show ?case
    using r gateCalls_Cons[OF Cons.prems(1)] by simp
qed

lemma gateCalls_first_hit:
  assumes "pending w = ts" and "\<forall>t\<in>set ts. toDateString t = d"
    and "lastProfitCheckRef w \<noteq> Some d" and "i < length ts"
  shows "fst (gateCalls (length ts) w) ! i
           = (inWindow (ts ! i) \<and> (\<forall>j<i. \<not> inWindow (ts ! j)))"
  using assms
proof (induction ts arbitrary: w i)
  case Nil
  then show ?case by simp
next
  case (Cons t ts)
  let ?w1 = "snd (shouldGenerateProfit w)"
  have td: "toDateString t = d" using Cons.prems(2) by simp
  have r: "fst (shouldGenerateProfit w) = inWindow t"
    using Cons.prems(1,3) td shouldGenerateProfit_step(1)[of w t ts] by simp
  have m: "lastProfitCheckRef ?w1 = (if inWindow t then Some d else lastProfitCheckRef w)"
    using Cons.prems(1) td r shouldGenerateProfit_step(2)[of w t ts] by simp
  have p: "pending ?w1 = ts"
    using Cons.prems(1) shouldGenerateProfit_step(3)[of w t ts] by simp
  have day: "\<forall>t\<in>set ts. toDateString t = d" using Cons.prems(2) by simp
  have unfold: "fst (gateCalls (length (t # ts)) w)
                  = inWindow t # fst (gateCalls (length ts) ?w1)"
    using gateCalls_Cons[OF Cons.prems(1)] r by simp
  show ?case
  proof (cases i)
    case 0
    then show ?thesis using unfold by simp
  next
    case (Suc k)
    then have k: "k < length ts" using Cons.prems(4) by simp
    show ?thesis
    proof (cases "inWindow t")
      case True
      then have "fst (gateCalls (length ts) ?w1) = replicate (length ts) False"
        using gateCalls_marked[OF p day] m by simp
      then have "\<not> fst (gateCalls (length (t # ts)) w) ! i"
        using unfold Suc k by simp
      moreover have "\<not> (\<forall>j<i. \<not> inWindow ((t # ts) ! j))"
        using True Suc by auto
      ultimately show ?thesis by simp
    next
      case False
      then have "lastProfitCheckRef ?w1 \<noteq> Some d"
        using m Cons.prems(3) by simp
      then have "fst (gateCalls (length ts) ?w1) ! k
                   = (inWindow (ts ! k) \<and> (\<forall>j<k. \<not> inWindow (ts ! j)))"
        using Cons.IH[OF p day _ k] by simp
      then show ?thesis
        using unfold Suc False by (simp add: All_less_Suc2)
    qed
  qed
qed

text \<open>The ref never holds a day on which the gate was not called: calls on other
  days leave it different from the day \<open>d\<close>.\<close>

lemma gateCalls_other_days:
  assumes "pending w = pre @ rest" and "\<forall>t\<in>set pre. toDateString t \<noteq> d"
    and "lastProfitCheckRef w \<noteq> Some d"
  shows "lastProfitCheckRef (snd (gateCalls (length pre) w)) \<noteq> Some d
     \<and> pending (snd (gateCalls (length pre) w)) = rest"
  using assms
proof (induction pre arbitrary: w)
  case Nil
  then show ?case by simp
next
  case (Cons t pre)
  let ?w1 = "snd (shouldGenerateProfit w)"
  have p: "pending w = t # (pre @ rest)" using Cons.prems(1) by simp
  have m: "lastProfitCheckRef ?w1 \<noteq> Some d"
    using shouldGenerateProfit_step(2)[OF p] Cons.prems(2,3) by auto
  have q: "pending ?w1 = pre @ rest"
    using shouldGenerateProfit_step(3)[OF p] .
  have "\<forall>t\<in>set pre. toDateString t \<noteq> d" using Cons.prems(2) by simp
  from Cons.IH[OF q this m] show ?case
    by (simp add: Let_def split_def)
qed

text \<open>
  C1. Take all the calls of the gate that fall on one calendar day \<open>d\<close>, the ref not
  yet holding that day when the first of them is made (there has been no reload: the
  ref is threaded from call to call). A call outside the window [00:00, 00:05) returns
  false; after a call that returned true every later call returns false; when some call
  lies in the window, exactly one call returns true, and it is one in the window (the
  first of them); when none does, no call returns true.
\<close>

theorem shouldGenerateProfit_once_per_day:
  assumes "pending w = ts" and "\<forall>t\<in>set ts. toDateString t = d"
    and "lastProfitCheckRef w \<noteq> Some d"
  shows "length (fst (gateCalls (length ts) w)) = length ts
    \<and> (\<forall>i<length ts. \<not> inWindow (ts ! i) \<longrightarrow> \<not> fst (gateCalls (length ts) w) ! i)
    \<and> (\<forall>i<length ts. fst (gateCalls (length ts) w) ! i \<longrightarrow>
          (\<forall>j<length ts. i < j \<longrightarrow> \<not> fst (gateCalls (length ts) w) ! j))
    \<and> ((\<exists>i<length ts. inWindow (ts ! i)) \<longrightarrow>
          (\<exists>!i. i < length ts \<and> inWindow (ts ! i) \<and> fst (gateCalls (length ts) w) ! i))
    \<and> ((\<forall>i<length ts. \<not> inWindow (ts ! i)) \<longrightarrow>
          (\<forall>i<length ts. \<not> fst (gateCalls (length ts) w) ! i))"
proof -
  let ?rs = "fst (gateCalls (length ts) w)"
  note hit = gateCalls_first_hit[OF assms]
  have a: "length ?rs = length ts" by (rule gateCalls_length)
  have b: "\<forall>i<length ts. \<not> inWindow (ts ! i) \<longrightarrow> \<not> ?rs ! i"
    using hit by simp
  have c: "\<forall>i<length ts. ?rs ! i \<longrightarrow> (\<forall>j<length ts. i < j \<longrightarrow> \<not> ?rs ! j)"
    using hit by auto
  have d: "(\<exists>i<length ts. inWindow (ts ! i)) \<longrightarrow>
          (\<exists>!i. i < length ts \<and> inWindow (ts ! i) \<and> ?rs ! i)"
  proof
    assume ex: "\<exists>i<length ts. inWindow (ts ! i)"
    define k where "k = (LEAST i. i < length ts \<and> inWindow (ts ! i))"
    have k1: "k < length ts \<and> inWindow (ts ! k)"
      unfolding k_def using ex by (rule LeastI_ex)
    have k2: "\<forall>j<k. \<not> inWindow (ts ! j)"
    proof (intro allI impI)
      fix j assume "j < k"
      then have "\<not> (j < length ts \<and> inWindow (ts ! j))"
        unfolding k_def by (rule not_less_Least)
      then show "\<not> inWindow (ts ! j)" using \<open>j < k\<close> k1 by simp
    qed
    have "?rs ! k" using hit[of k] k1 k2 by simp
    moreover have "i = k" if "i < length ts" "?rs ! i" for i
    proof -
      have "inWindow (ts ! i)" "\<forall>j<i. \<not> inWindow (ts ! j)" using hit[OF that(1)] that(2) by simp_all
      then show ?thesis using k1 k2 by (meson linorder_neqE_nat)
    qed
    ultimately show "\<exists>!i. i < length ts \<and> inWindow (ts ! i) \<and> ?rs ! i"
      using k1 by blast
  qed
  have e: "(\<forall>i<length ts. \<not> inWindow (ts ! i)) \<longrightarrow> (\<forall>i<length ts. \<not> ?rs ! i)"
    using hit by simp
  show ?thesis using a b c d e by blast
qed


theorem shouldGenerateProfit_once_per_day_witness:
  "pending (world0\<lparr>pending := [midnight + 60000, midnight + 120000, midnight + 3600000]\<rparr>)
     = [midnight + 60000, midnight + 120000, midnight + 3600000]
   \<and> toDateString (midnight + 60000) = 20000
   \<and> toDateString (midnight + 120000) = 20000
   \<and> toDateString (midnight + 3600000) = 20000
   \<and> lastProfitCheckRef
        (world0\<lparr>pending := [midnight + 60000, midnight + 120000, midnight + 3600000]\<rparr>)
       \<noteq> Some 20000
   \<and> inWindow ([midnight + 60000, midnight + 120000, midnight + 3600000] ! 0)
   \<and> (\<exists>!i. i < 3 \<and> inWindow ([midnight + 60000, midnight + 120000, midnight + 3600000] ! i)
         \<and> fst (gateCalls 3
              (world0\<lparr>pending := [midnight + 60000, midnight + 120000,
                                  midnight + 3600000]\<rparr>)) ! i)"
proof -
  let ?ts = "[midnight + 60000, midnight + 120000, midnight + 3600000]"
  let ?w = "world0\<lparr>pending := ?ts\<rparr>"
  have h1: "pending ?w = ?ts" by simp
  have h2: "\<forall>t\<in>set ?ts. toDateString t = 20000"
    by (simp add: toDateString_def midnight_def msPerDay_def)
  have h3: "lastProfitCheckRef ?w \<noteq> Some 20000"
    by (simp add: world0_def)
  have h4: "inWindow (?ts ! 0)"
    by (simp add: inWindow_def getHours_def getMinutes_def midnight_def
        msPerDay_def msPerHour_def msPerMinute_def)
  have len: "length ?ts = 3" by simp
  have ex: "\<exists>i<3. inWindow (?ts ! i)"
    using h4 by (intro exI[of _ 0]) simp
  have "\<exists>!i. i < 3 \<and> inWindow (?ts ! i) \<and> fst (gateCalls 3 ?w) ! i"
    using shouldGenerateProfit_once_per_day [OF h1 h2 h3, unfolded len] ex by blast
  then show ?thesis using h1 h2 h3 h4 by simp
qed

section \<open>generateDailyProfit: accrual and expiry\<close>

lemma map_profit_updateWhere_active:
  "map profit_earned (updateWhere k (\<lambda>r. r\<lparr>is_active := b\<rparr>) rows) = map profit_earned rows"
  by (induction rows) (simp_all add: updateWhere_def)

lemmas gdp = generateDailyProfit_def generateDailyProfit_try_def ops





text \<open>
  C5. On an investment whose \<open>end_date\<close> lies before the time of processing,
  \<open>generateDailyProfit\<close> sends the update \<open>is_active = false\<close> and stops: no
  \<open>profit_earned\<close> changes, no balance changes, and neither a balance credit nor a
  notification is sent. Where the update is applied the row is inactive afterwards.
\<close>

theorem generateDailyProfit_expired:
  assumes "fault 0 w = None"
    and "filter (\<lambda>r. ui_id r = k) (investments w) = [row]"
    and "end_date row < reading 0 w"
  shows "trace (generateDailyProfit k a p w) = trace w @
           [Request (SelectInvestment k), NewDate (reading 0 w),
            Request (UpdateIsActive k False), Console (LogExpired k)]
     \<and> map profit_earned (investments (generateDailyProfit k a p w))
           = map profit_earned (investments w)
     \<and> balances (generateDailyProfit k a p w) = balances w
     \<and> (fault 1 w = None \<longrightarrow>
           investments (generateDailyProfit k a p w)
             = updateWhere k (\<lambda>r. r\<lparr>is_active := False\<rparr>) (investments w)
         \<and> filter (\<lambda>r. ui_id r = k) (investments (generateDailyProfit k a p w))
             = [row\<lparr>is_active := False\<rparr>])"
proof -
  let ?w' = "generateDailyProfit k a p w"
  have tr: "trace ?w' = trace w @
           [Request (SelectInvestment k), NewDate (reading 0 w),
            Request (UpdateIsActive k False), Console (LogExpired k)]"
    using assms by (simp add: gdp split: option.splits)
  have pe: "map profit_earned (investments ?w') = map profit_earned (investments w)"
    using assms by (simp add: gdp map_profit_updateWhere_active split: option.splits)
  have bal: "balances ?w' = balances w"
    using assms by (simp add: gdp split: option.splits)
  have act: "investments ?w' = updateWhere k (\<lambda>r. r\<lparr>is_active := False\<rparr>) (investments w)
         \<and> filter (\<lambda>r. ui_id r = k) (investments ?w') = [row\<lparr>is_active := False\<rparr>]"
    if "fault 1 w = None"
  proof -
    have "investments ?w' = updateWhere k (\<lambda>r. r\<lparr>is_active := False\<rparr>) (investments w)"
      using assms that by (simp add: gdp)
    then show ?thesis using assms(2) by (simp add: filter_updateWhere)
  qed
  show ?thesis using tr pe bal act by blast
qed

theorem generateDailyProfit_expired_witness:
  "fault 0 (world0\<lparr>now := midnight + 21 * msPerDay\<rparr>) = None
   \<and> filter (\<lambda>r. ui_id r = 3) (investments (world0\<lparr>now := midnight + 21 * msPerDay\<rparr>))
       = [stake]
   \<and> end_date stake < reading 0 (world0\<lparr>now := midnight + 21 * msPerDay\<rparr>)
   \<and> fault 1 (world0\<lparr>now := midnight + 21 * msPerDay\<rparr>) = None
   \<and> investments (generateDailyProfit 3 1000 2 (world0\<lparr>now := midnight + 21 * msPerDay\<rparr>))
       = [stake\<lparr>is_active := False\<rparr>]
   \<and> balances (generateDailyProfit 3 1000 2 (world0\<lparr>now := midnight + 21 * msPerDay\<rparr>))
       = balances world0
   \<and> trace (generateDailyProfit 3 1000 2 (world0\<lparr>now := midnight + 21 * msPerDay\<rparr>))
       = [Request (SelectInvestment 3), NewDate (midnight + 21 * msPerDay),
          Request (UpdateIsActive 3 False), Console (LogExpired 3)]"
proof -
  let ?w = "world0\<lparr>now := midnight + 21 * msPerDay\<rparr>"
  have h1: "fault 0 ?w = None" and f1: "fault 1 ?w = None"
    by (simp_all add: world0_eval)
  have h2: "filter (\<lambda>r. ui_id r = 3) (investments ?w) = [stake]"
    by (simp add: world0_eval)
  have h3: "end_date stake < reading 0 ?w"
    by (simp add: world0_eval)
  note t = generateDailyProfit_expired [OF h1 h2 h3, of 1000 2]
  have c1: "investments (generateDailyProfit 3 1000 2 ?w) = [stake\<lparr>is_active := False\<rparr>]"
    using t f1 by (simp add: world0_def stake_def updateWhere_def)
  have c2: "balances (generateDailyProfit 3 1000 2 ?w) = balances world0"
    using t by simp
  have c3: "trace (generateDailyProfit 3 1000 2 ?w)
       = [Request (SelectInvestment 3), NewDate (midnight + 21 * msPerDay),
          Request (UpdateIsActive 3 False), Console (LogExpired 3)]"
    using t by (simp add: world0_def reading.simps newDate_def emit_def)
  show ?thesis using h1 h2 h3 f1 c1 c2 c3 by simp
qed

text \<open>
  C10. In the expiry branch the outcome of the update is not looked at: whatever it is,
  the \<open>try\<close> body ends normally and the deactivation is logged, with no error line;
  when the update failed the table is as before, so the row was not deactivated.
\<close>

theorem generateDailyProfit_expiry_unchecked:
  assumes "fault 0 w = None"
    and "filter (\<lambda>r. ui_id r = k) (investments w) = [row]"
    and "end_date row < reading 0 w"
  shows "fst (generateDailyProfit_try k a p w) = None
     \<and> trace (generateDailyProfit k a p w) = trace w @
           [Request (SelectInvestment k), NewDate (reading 0 w),
            Request (UpdateIsActive k False), Console (LogExpired k)]
     \<and> (\<forall>e. fault 1 w = Some e \<longrightarrow>
           investments (generateDailyProfit k a p w) = investments w)"
proof -
  let ?w' = "generateDailyProfit k a p w"
  have r: "fst (generateDailyProfit_try k a p w) = None"
    using assms by (simp add: gdp split: option.splits)
  have tr: "trace ?w' = trace w @
           [Request (SelectInvestment k), NewDate (reading 0 w),
            Request (UpdateIsActive k False), Console (LogExpired k)]"
    using assms by (simp add: gdp split: option.splits)
  have keep: "investments ?w' = investments w" if "fault 1 w = Some e" for e
    using assms that by (simp add: gdp)
  show ?thesis using r tr keep by blast
qed

theorem generateDailyProfit_expiry_unchecked_witness:
  "fault 0 (world0\<lparr>faults := [None, Some (RemoteError ''update'')],
                   now := midnight + 21 * msPerDay\<rparr>) = None
   \<and> filter (\<lambda>r. ui_id r = 3)
        (investments (world0\<lparr>faults := [None, Some (RemoteError ''update'')],
                             now := midnight + 21 * msPerDay\<rparr>)) = [stake]
   \<and> end_date stake
       < reading 0 (world0\<lparr>faults := [None, Some (RemoteError ''update'')],
                           now := midnight + 21 * msPerDay\<rparr>)
   \<and> fault 1 (world0\<lparr>faults := [None, Some (RemoteError ''update'')],
                     now := midnight + 21 * msPerDay\<rparr>) = Some (RemoteError ''update'')
   \<and> fst (generateDailyProfit_try 3 1000 2
        (world0\<lparr>faults := [None, Some (RemoteError ''update'')],
                 now := midnight + 21 * msPerDay\<rparr>)) = None
   \<and> investments (generateDailyProfit 3 1000 2
        (world0\<lparr>faults := [None, Some (RemoteError ''update'')],
                 now := midnight + 21 * msPerDay\<rparr>)) = [stake]
   \<and> trace (generateDailyProfit 3 1000 2
        (world0\<lparr>faults := [None, Some (RemoteError ''update'')],
                 now := midnight + 21 * msPerDay\<rparr>))
       = [Request (SelectInvestment 3), NewDate (midnight + 21 * msPerDay),
          Request (UpdateIsActive 3 False), Console (LogExpired 3)]"
proof -
  let ?w = "world0\<lparr>faults := [None, Some (RemoteError ''update'')],
                   now := midnight + 21 * msPerDay\<rparr>"
  have h1: "fault 0 ?w = None" and f1: "fault 1 ?w = Some (RemoteError ''update'')"
    by (simp_all add: fault_def)
  have h2: "filter (\<lambda>r. ui_id r = 3) (investments ?w) = [stake]"
    by (simp add: world0_eval)
  have h3: "end_date stake < reading 0 ?w"
    by (simp add: world0_eval)
  note t = generateDailyProfit_expiry_unchecked [OF h1 h2 h3, of 1000 2]
  have c1: "fst (generateDailyProfit_try 3 1000 2 ?w) = None"
    using t by simp
  have c2: "investments (generateDailyProfit 3 1000 2 ?w) = [stake]"
    using t f1 by (simp add: world0_def)
  have c3: "trace (generateDailyProfit 3 1000 2 ?w)
       = [Request (SelectInvestment 3), NewDate (midnight + 21 * msPerDay),
          Request (UpdateIsActive 3 False), Console (LogExpired 3)]"
    using t by (simp add: world0_def reading.simps newDate_def emit_def)
  show ?thesis using h1 h2 h3 f1 c1 c2 c3 by simp
qed

section \<open>activatePlan: success and failure\<close>



lemmas act = activatePlan_def activatePlan_try_def selectPlan_def insertInvestment_def
  update_user_balance_def send_def console_def toast_def single_def Let_def split_def
  reading_0 reading_newDate

text \<open>What \<open>activatePlan\<close> does, by the outcome of its three requests.\<close>

lemma activatePlan_no_plan:
  assumes "fault 0 w = Some e"
  shows "activatePlan planId amt userId w
           = (Inl e, emit (Toast ActivationFailed) (emit (Console (ErrorActivatingPlan e))
                (sent (SelectPlan planId) w)))"
  using assms by (simp add: act)

lemma activatePlan_not_single:
  assumes "fault 0 w = None" and "\<nexists>plan. filter (\<lambda>q. ip_id q = planId) (plans w) = [plan]"
  shows "activatePlan planId amt userId w
           = (Inl NotSingleRow, emit (Toast ActivationFailed)
                (emit (Console (ErrorActivatingPlan NotSingleRow))
                (sent (SelectPlan planId) w)))"
  using assms by (simp add: act split: list.splits)

lemma activatePlan_insert_fails:
  assumes "fault 0 w = None" and "filter (\<lambda>q. ip_id q = planId) (plans w) = [plan]"
    and "fault 1 w = Some e"
  shows "activatePlan planId amt userId w
           = (Inl e, emit (Toast ActivationFailed) (emit (Console (ErrorActivatingPlan e))
                (sent (InsertInvestment (newInvestment userId planId amt (reading 0 w)
                         (addDays (duration_days plan) (reading 1 w))))
                   (snd (newDate (snd (newDate (sent (SelectPlan planId) w))))))))"
  using assms by (simp add: act)

lemma activatePlan_debit_fails:
  assumes "fault 0 w = None" and "filter (\<lambda>q. ip_id q = planId) (plans w) = [plan]"
    and "fault 1 w = None" and "fault 2 w = Some e"
  shows "activatePlan planId amt userId w
           = (Inl e, emit (Toast ActivationFailed) (emit (Console (ErrorActivatingPlan e))
                (sent (UpdateUserBalance userId amt Remove)
                  ((sent (InsertInvestment (newInvestment userId planId amt (reading 0 w)
                         (addDays (duration_days plan) (reading 1 w))))
                   (snd (newDate (snd (newDate (sent (SelectPlan planId) w))))))
                   \<lparr>investments := investments w @
                      [stored (freshId (investments w))
                         (newInvestment userId planId amt (reading 0 w)
                            (addDays (duration_days plan) (reading 1 w)))]\<rparr>))))"
  using assms by (simp add: act numeral_2_eq_2)

lemma activatePlan_succeeds:
  assumes "fault 0 w = None" and "filter (\<lambda>q. ip_id q = planId) (plans w) = [plan]"
    and "fault 1 w = None" and "fault 2 w = None"
  shows "activatePlan planId amt userId w
           = (Inr (stored (freshId (investments w))
                         (newInvestment userId planId amt (reading 0 w)
                            (addDays (duration_days plan) (reading 1 w)))),
              emit (Toast (PlanActivated (ip_name plan)))
                ((sent (UpdateUserBalance userId amt Remove)
                  ((sent (InsertInvestment (newInvestment userId planId amt (reading 0 w)
                         (addDays (duration_days plan) (reading 1 w))))
                   (snd (newDate (snd (newDate (sent (SelectPlan planId) w))))))
                   \<lparr>investments := investments w @
                      [stored (freshId (investments w))
                         (newInvestment userId planId amt (reading 0 w)
                            (addDays (duration_days plan) (reading 1 w)))]\<rparr>))
                 \<lparr>balances := applyBalance userId amt Remove (balances w)\<rparr>))"
  using assms by (simp add: act numeral_2_eq_2)

lemma activatePlan_cases:
  obtains (no_plan) e where "fault 0 w = Some e"
  | (not_single) "fault 0 w = None"
      "\<nexists>plan. filter (\<lambda>q. ip_id q = planId) (plans w) = [plan]"
  | (insert_fails) plan e where "fault 0 w = None"
      "filter (\<lambda>q. ip_id q = planId) (plans w) = [plan]" "fault 1 w = Some e"
  | (debit_fails) plan e where "fault 0 w = None"
      "filter (\<lambda>q. ip_id q = planId) (plans w) = [plan]" "fault 1 w = None"
      "fault 2 w = Some e"
  | (succeeds) plan where "fault 0 w = None"
      "filter (\<lambda>q. ip_id q = planId) (plans w) = [plan]" "fault 1 w = None"
      "fault 2 w = None"
  by (cases "fault 0 w"; cases "fault 1 w"; cases "fault 2 w";
      cases "\<exists>plan. filter (\<lambda>q. ip_id q = planId) (plans w) = [plan]") auto

text \<open>Only the gate writes the ref.\<close>

lemma activatePlan_ref:
  "lastProfitCheckRef (snd (activatePlan planId amt userId w)) = lastProfitCheckRef w"
  by (cases rule: activatePlan_cases[where w=w and planId=planId])
    (simp_all add: activatePlan_no_plan activatePlan_not_single activatePlan_insert_fails
      activatePlan_debit_fails activatePlan_succeeds)





section \<open>The accrual cycle: failures and the day's trigger\<close>

lemma processed_append: "processed (xs @ ys) = processed xs @ processed ys"
  by (induction xs rule: processed.induct) simp_all

lemma generateDailyProfit_ref:
  "lastProfitCheckRef (generateDailyProfit k a p w) = lastProfitCheckRef w"
  by (simp add: gdp split: option.splits list.splits)



lemma processInvestments_ref:
  "lastProfitCheckRef (snd (processInvestments fetched w)) = lastProfitCheckRef w"
  by (induction fetched w rule: processInvestments.induct)
    (simp_all add: generateDailyProfit_ref split: option.splits)


lemma shouldGenerateProfit_eq:
  "shouldGenerateProfit w =
     (if lastProfitCheckRef w \<noteq> Some (toDateString (reading 0 w)) \<and> inWindow (reading 0 w)
      then (True, (snd (newDate w))\<lparr>lastProfitCheckRef := Some (toDateString (reading 0 w))\<rparr>)
      else (False, snd (newDate w)))"
  by (simp add: shouldGenerateProfit_def inWindow_def Let_def split_def reading_0)

lemmas cycle = generateProfitsForActiveInvestments_def generateProfits_try_def
  selectActiveInvestments_def send_def console_def Let_def split_def reading_0 reading_newDate

lemma cycle_fetch_fails:
  assumes "fst (shouldGenerateProfit w)" and "fault 0 w = Some e"
  shows "generateProfitsForActiveInvestments w
           = emit (Console (ErrorGeneratingProfits e))
               (sent (SelectActiveInvestments (reading 1 w))
                 (snd (newDate ((snd (newDate w))
                    \<lparr>lastProfitCheckRef := Some (toDateString (reading 0 w))\<rparr>))))"
  using assms by (simp add: shouldGenerateProfit_eq cycle split: if_splits)

lemma cycle_idle:
  assumes "\<not> fst (shouldGenerateProfit w)"
  shows "generateProfitsForActiveInvestments w = snd (newDate w)"
  using assms by (auto simp: shouldGenerateProfit_eq generateProfitsForActiveInvestments_def)

lemma cycle_ref:
  assumes "fst (shouldGenerateProfit w)"
  shows "lastProfitCheckRef (generateProfitsForActiveInvestments w)
           = Some (toDateString (reading 0 w))"
  using assms
  by (simp add: shouldGenerateProfit_eq cycle processInvestments_ref
      split: if_splits option.splits)



text \<open>
  C8. When the gate returns true it has already stored the day in the ref, and has sent
  nothing yet. Whatever the cycle that follows does, it leaves the ref at that day: so
  also when the batch fetch fails and the cycle changes no table. In any later state
  with that ref, a call made while the clock shows the same day returns false, and the
  cycle started there does nothing but read the clock.
\<close>

theorem failed_cycle_consumes_trigger:
  assumes "fst (shouldGenerateProfit w)"
  shows "lastProfitCheckRef (snd (shouldGenerateProfit w))
           = Some (toDateString (reading 0 w))
     \<and> trace (snd (shouldGenerateProfit w)) = trace w @ [NewDate (reading 0 w)]
     \<and> lastProfitCheckRef (generateProfitsForActiveInvestments w)
           = Some (toDateString (reading 0 w))
     \<and> (\<forall>e. fault 0 w = Some e \<longrightarrow>
            investments (generateProfitsForActiveInvestments w) = investments w
          \<and> balances (generateProfitsForActiveInvestments w) = balances w
          \<and> processed (trace (generateProfitsForActiveInvestments w))
              = processed (trace w))
     \<and> (\<forall>v. lastProfitCheckRef v
                = lastProfitCheckRef (generateProfitsForActiveInvestments w)
              \<and> toDateString (reading 0 v) = toDateString (reading 0 w) \<longrightarrow>
            \<not> fst (shouldGenerateProfit v)
          \<and> trace (generateProfitsForActiveInvestments v)
              = trace v @ [NewDate (reading 0 v)]
          \<and> investments (generateProfitsForActiveInvestments v) = investments v
          \<and> balances (generateProfitsForActiveInvestments v) = balances v)"
proof -
  let ?c = "generateProfitsForActiveInvestments w"
  have gate: "lastProfitCheckRef w \<noteq> Some (toDateString (reading 0 w))"
    "inWindow (reading 0 w)"
    using assms by (simp_all add: shouldGenerateProfit_eq split: if_splits)
  have a: "lastProfitCheckRef (snd (shouldGenerateProfit w))
             = Some (toDateString (reading 0 w))"
    using gate by (simp add: shouldGenerateProfit_eq)
  have b: "trace (snd (shouldGenerateProfit w)) = trace w @ [NewDate (reading 0 w)]"
    using gate by (simp add: shouldGenerateProfit_eq reading_0)
  note c = cycle_ref[OF assms]
  have d: "investments ?c = investments w \<and> balances ?c = balances w
          \<and> processed (trace ?c) = processed (trace w)"
    if "fault 0 w = Some e" for e
    unfolding cycle_fetch_fails[OF assms that]
    by (simp add: reading_0 processed_append)
  have e: "\<not> fst (shouldGenerateProfit v)
          \<and> trace (generateProfitsForActiveInvestments v) = trace v @ [NewDate (reading 0 v)]
          \<and> investments (generateProfitsForActiveInvestments v) = investments v
          \<and> balances (generateProfitsForActiveInvestments v) = balances v"
    if "lastProfitCheckRef v = lastProfitCheckRef ?c
          \<and> toDateString (reading 0 v) = toDateString (reading 0 w)" for v
  proof -
    have no: "\<not> fst (shouldGenerateProfit v)"
      using that c by (simp add: shouldGenerateProfit_eq)
    show ?thesis
      using no cycle_idle[OF no] by (simp add: reading_0)
  qed
  show ?thesis using a b c d e by blast
qed

theorem failed_cycle_consumes_trigger_witness:
  "fst (shouldGenerateProfit
          (world0\<lparr>faults := [Some (RemoteError ''fetch'')],
                   pending := [midnight + 60000, midnight + 60001, midnight + 120000]\<rparr>))
   \<and> fault 0 (world0\<lparr>faults := [Some (RemoteError ''fetch'')],
                   pending := [midnight + 60000, midnight + 60001, midnight + 120000]\<rparr>)
       = Some (RemoteError ''fetch'')
   \<and> lastProfitCheckRef (generateProfitsForActiveInvestments
          (world0\<lparr>faults := [Some (RemoteError ''fetch'')],
                   pending := [midnight + 60000, midnight + 60001, midnight + 120000]\<rparr>))
       = Some 20000
   \<and> investments (generateProfitsForActiveInvestments
          (world0\<lparr>faults := [Some (RemoteError ''fetch'')],
                   pending := [midnight + 60000, midnight + 60001, midnight + 120000]\<rparr>))
       = [stake]
   \<and> reading 0 (generateProfitsForActiveInvestments
          (world0\<lparr>faults := [Some (RemoteError ''fetch'')],
                   pending := [midnight + 60000, midnight + 60001, midnight + 120000]\<rparr>))
       = midnight + 120000
   \<and> inWindow (midnight + 120000)
   \<and> \<not> fst (shouldGenerateProfit (generateProfitsForActiveInvestments
          (world0\<lparr>faults := [Some (RemoteError ''fetch'')],
                   pending := [midnight + 60000, midnight + 60001, midnight + 120000]\<rparr>)))"
proof -
  let ?w = "world0\<lparr>faults := [Some (RemoteError ''fetch'')],
                   pending := [midnight + 60000, midnight + 60001, midnight + 120000]\<rparr>"
  let ?c = "generateProfitsForActiveInvestments ?w"
  have r0: "reading 0 ?w = midnight + 60000"
    and r2: "reading (Suc (Suc 0)) ?w = midnight + 120000"
    by (simp_all add: reading.simps newDate_def emit_def)
  have win: "inWindow (midnight + 60000)" "inWindow (midnight + 120000)"
    by (simp_all add: inWindow_def getHours_def getMinutes_def midnight_def
        msPerDay_def msPerHour_def msPerMinute_def)
  have day: "toDateString (midnight + 60000) = 20000"
    "toDateString (midnight + 120000) = 20000"
    by (simp_all add: toDateString_def midnight_def msPerDay_def)
  have ref: "lastProfitCheckRef ?w = None" and rows: "investments ?w = [stake]"
    by (simp_all add: world0_def)
  have g: "fst (shouldGenerateProfit ?w)"
    by (simp add: shouldGenerateProfit_eq r0 win ref)
  have f0: "fault 0 ?w = Some (RemoteError ''fetch'')"
    by (simp add: fault_def)
  have next_reading: "reading 0 ?c = midnight + 120000"
    unfolding cycle_fetch_fails[OF g f0] by (simp add: reading_newDate r2)
  note t = failed_cycle_consumes_trigger [OF g]
  have c1: "lastProfitCheckRef ?c = Some 20000"
    using t by (simp add: r0 day)
  have c2: "investments ?c = [stake]"
    using t f0 rows by simp
  have "lastProfitCheckRef ?c = lastProfitCheckRef ?c
          \<and> toDateString (reading 0 ?c) = toDateString (reading 0 ?w)"
    by (simp add: next_reading r0 day)
  then have c3: "\<not> fst (shouldGenerateProfit ?c)"
    using t by blast
  show ?thesis using g f0 c1 c2 next_reading win(2) c3 by simp
qed

section \<open>The verification widget: disabled, missing or failing configuration\<close>

text \<open>
  C7. When the configuration request fails, finds no row, or finds a row with
  \<open>is_enabled = false\<close>, the query function returns the settings \<open>{ enabled: false }\<close>,
  the same in the three cases and whatever the error is, so no error leaves it; with
  these settings the component returns \<open>null\<close>, appends no script and renders no
  widget.
\<close>

theorem RecaptchaWrapper_disabled:
  assumes "error \<noteq> None \<or> data = None \<or> (\<exists>d. data = Some d \<and> \<not> is_enabled d)"
  shows "queryFn data error = \<lparr>enabled = False, siteKey = None\<rparr>
     \<and> queryFn data error = queryFn (Some \<lparr>site_key = k, is_enabled = False\<rparr>) None
     \<and> RecaptchaWrapper (Some (queryFn data error)) = None
     \<and> loadEffect (Some (queryFn data error)) grecaptcha = []
     \<and> renderEffect isLoaded (Some (queryFn data error)) grecaptcha = []"
proof -
  have q: "queryFn data error = \<lparr>enabled = False, siteKey = None\<rparr>"
    using assms by (auto simp: queryFn_def)
  have same: "queryFn (Some \<lparr>site_key = k, is_enabled = False\<rparr>) None
                = \<lparr>enabled = False, siteKey = None\<rparr>"
    by (simp add: queryFn_def)
  have off: "\<not> enabledOf (Some (queryFn data error))"
    by (simp add: q enabledOf_def)
  show ?thesis
    using q same off by (simp add: RecaptchaWrapper_def loadEffect_def renderEffect_def)
qed

theorem RecaptchaWrapper_disabled_witness:
  "Some (RemoteError ''network'') \<noteq> None
   \<and> queryFn None (Some (RemoteError ''network''))
       = queryFn (Some \<lparr>site_key = ''key'', is_enabled = False\<rparr>) None
   \<and> RecaptchaWrapper (Some (queryFn None (Some (RemoteError ''network'')))) = None
   \<and> loadEffect (Some (queryFn None (Some (RemoteError ''network'')))) True = []
   \<and> renderEffect True (Some (queryFn None (Some (RemoteError ''network'')))) True = []"
proof -
  have h: "Some (RemoteError ''network'') \<noteq> None \<or> (None :: recaptcha_row option) = None
             \<or> (\<exists>d. (None :: recaptcha_row option) = Some d \<and> \<not> is_enabled d)"
    by simp
  have a: "Some (RemoteError ''network'') \<noteq> None"
    by simp
  show ?thesis
    using a RecaptchaWrapper_disabled [OF h, of "''key''" True True] by blast
qed

end
